theory Spec2Isabelle
  imports Main
begin

section \<open>Python primitives used by rinexmod.py\<close>

text \<open>
  Strings are ASCII character lists. \<open>str.lower\<close> and \<open>str.upper\<close> change the 26
  letters and nothing else; \<open>str.strip\<close> removes Python's ASCII whitespace (tab, line
  feed, vertical tab, form feed, carriage return, the four separators 0x1C..0x1F and the
  space) from both ends. The slices \<open>s[:4]\<close> and \<open>s[4:]\<close> are \<open>take 4 s\<close> and
  \<open>drop 4 s\<close>: like Python's slices they never fail on a short string.
\<close>

definition lower_char :: "char \<Rightarrow> char" where
  "lower_char c =
     (case map_of (zip ''ABCDEFGHIJKLMNOPQRSTUVWXYZ'' ''abcdefghijklmnopqrstuvwxyz'') c of
        Some d \<Rightarrow> d | None \<Rightarrow> c)"

definition upper_char :: "char \<Rightarrow> char" where
  "upper_char c =
     (case map_of (zip ''abcdefghijklmnopqrstuvwxyz'' ''ABCDEFGHIJKLMNOPQRSTUVWXYZ'') c of
        Some d \<Rightarrow> d | None \<Rightarrow> c)"

definition lower :: "string \<Rightarrow> string" where
  "lower s = map lower_char s"

definition upper :: "string \<Rightarrow> string" where
  "upper s = map upper_char s"

definition is_space :: "char \<Rightarrow> bool" where
  "is_space c = (c \<in> set [CHR 0x09, CHR 0x0A, CHR 0x0B, CHR 0x0C, CHR 0x0D,
                            CHR 0x1C, CHR 0x1D, CHR 0x1E, CHR 0x1F, CHR 0x20])"

definition strip :: "string \<Rightarrow> string" where
  "strip s = rev (dropWhile is_space (rev (dropWhile is_space s)))"

text \<open>\<open>sep.join(parts)\<close>.\<close>

fun join :: "string \<Rightarrow> string list \<Rightarrow> string" where
  "join sep [] = []"
| "join sep [p] = p"
| "join sep (p # q # ps) = p @ sep @ join sep (q # ps)"

text \<open>\<open>sub in s\<close> on strings: \<open>sub\<close> occurs in \<open>s\<close> as a contiguous run.\<close>

fun startswith :: "string \<Rightarrow> string \<Rightarrow> bool" where
  "startswith s [] = True"
| "startswith [] (p # ps) = False"
| "startswith (c # s) (p # ps) = (c = p \<and> startswith s ps)"

fun contains :: "string \<Rightarrow> string \<Rightarrow> bool" where
  "contains [] sub = (sub = [])"
| "contains (c # s) sub = (startswith (c # s) sub \<or> contains s sub)"

text \<open>\<open>'{:60s}'.format(s)\<close>: left-justified in a field of 60, never truncated.\<close>

definition ljust60 :: "string \<Rightarrow> string" where
  "ljust60 s = s @ replicate (60 - length s) (CHR '' '')"

text \<open>
  Truthiness of an optional string argument: the command line's default \<open>0\<close> (and
  \<open>None\<close>) is \<open>None\<close> here, and the empty string is falsy as well.
\<close>

definition truthy :: "string option \<Rightarrow> bool" where
  "truthy a = (case a of None \<Rightarrow> False | Some s \<Rightarrow> s \<noteq> [])"

subsection \<open>datetime and strftime\<close>

text \<open>
  A \<open>datetime\<close> keeps its calendar and clock fields; the years of observation files have
  four digits (1000..9999), months 1..12, hours 0..23, minutes and seconds 0..59, so that each
  directive below prints the fixed number of digits that Python prints.
\<close>

record datetime =
  year :: nat
  month :: nat
  day :: nat
  hour :: nat
  minute :: nat
  second :: nat

definition digit_char :: "nat \<Rightarrow> char" where
  "digit_char d = ''0123456789'' ! (d mod 10)"

definition two_digits :: "nat \<Rightarrow> string" where
  "two_digits n = [digit_char (n div 10), digit_char n]"

definition three_digits :: "nat \<Rightarrow> string" where
  "three_digits n = digit_char (n div 100) # two_digits n"

definition four_digits :: "nat \<Rightarrow> string" where
  "four_digits n = digit_char (n div 1000) # three_digits n"

definition is_leap :: "nat \<Rightarrow> bool" where
  "is_leap y = (y mod 4 = 0 \<and> (y mod 100 \<noteq> 0 \<or> y mod 400 = 0))"

text \<open>The days of the year before the first of month \<open>m\<close> (1..12).\<close>

definition days_before_month :: "nat \<Rightarrow> nat \<Rightarrow> nat" where
  "days_before_month y m =
     [0, 31, 59, 90, 120, 151, 181, 212, 243, 273, 304, 334] ! (m - 1)
       + (if 2 < m \<and> is_leap y then 1 else 0)"

definition day_of_year :: "datetime \<Rightarrow> nat" where
  "day_of_year dt = days_before_month (year dt) (month dt) + day dt"

text \<open>The directives that the two format strings of the source use.\<close>

definition directive :: "char \<Rightarrow> datetime \<Rightarrow> string" where
  "directive d dt =
     (if d = CHR ''Y'' then four_digits (year dt)
      else if d = CHR ''j'' then three_digits (day_of_year dt)
      else if d = CHR ''m'' then two_digits (month dt)
      else if d = CHR ''d'' then two_digits (day dt)
      else if d = CHR ''H'' then two_digits (hour dt)
      else if d = CHR ''M'' then two_digits (minute dt)
      else if d = CHR ''S'' then two_digits (second dt)
      else [CHR ''%'', d])"

fun strftime :: "string \<Rightarrow> datetime \<Rightarrow> string" where
  "strftime [] dt = []"
| "strftime [c] dt = [c]"
| "strftime (c # d # rest) dt =
     (if c = CHR ''%'' then directive d dt @ strftime rest dt
      else c # strftime (d # rest) dt)"

section \<open>The 4-character to 9-character site index (lines 226 to 229)\<close>

text \<open>
  \<^verbatim>\<open>for site_key in nine_char_list:
    nine_char_dict[site_key[:4].lower()] = site_key.strip()\<close>
  The dictionary is a map, the loop a recursion over the lines that carries it.
\<close>

fun nine_char_loop :: "string list \<Rightarrow> (string \<rightharpoonup> string) \<Rightarrow> (string \<rightharpoonup> string)" where
  "nine_char_loop [] nine_char_dict = nine_char_dict"
| "nine_char_loop (site_key # rest) nine_char_dict =
     nine_char_loop rest (nine_char_dict(lower (take 4 site_key) \<mapsto> strip site_key))"

definition build_nine_char_dict :: "string list \<Rightarrow> (string \<rightharpoonup> string)" where
  "build_nine_char_dict nine_char_list = nine_char_loop nine_char_list Map.empty"

section \<open>The marker step (lines 274 to 276)\<close>

text \<open>
  \<^verbatim>\<open>if marker:
    rinexfileobj.filename = marker.lower() + rinexfileobj.filename[4:]\<close>
\<close>

definition marker_filename :: "string option \<Rightarrow> string \<Rightarrow> string" where
  "marker_filename marker filename =
     (if truthy marker then lower (the marker) @ drop 4 filename else filename)"

section \<open>Arguments, external objects and effects of a run\<close>

text \<open>
  The thirteen parameters of \<open>rinexmod\<close>. \<open>rinexlist\<close> is a path or a Python list of
  paths; \<open>modification_kw\<close> is a dictionary in insertion order (its keys distinct) or
  the default \<open>0\<close>; the optional strings default to \<open>0\<close>.
\<close>

datatype rinexlist_arg = PathArg string | ListArg "string list"

record config =
  rinexlist :: rinexlist_arg
  outputfolder :: string
  marker :: "string option"
  name :: bool
  lone :: bool
  sitelog :: "string option"
  force :: bool
  reconstruct :: "string option"
  ignore :: bool
  ninecharfile :: "string option"
  modification_kw :: "(string \<times> string) list option"
  verbose :: bool
  compression :: "string option"

definition kw_truthy :: "(string \<times> string) list option \<Rightarrow> bool" where
  "kw_truthy m = (case m of None \<Rightarrow> False | Some d \<Rightarrow> d \<noteq> [])"

text \<open>
  \<open>RinexFile\<close> and \<open>SiteLog\<close> are classes of other modules. A \<open>rinexfile\<close> holds the
  attributes that \<open>rinexmod\<close> reads (\<open>station\<close> is what \<open>get_station()\<close> returns,
  \<open>file_compression\<close> the attribute \<open>compression\<close>) and, in \<open>calls\<close>, the setter calls
  made on the object, in order. A \<open>sitelogobj\<close> holds \<open>status\<close>, \<open>filename\<close>,
  \<open>info['1.']['Four Character ID']\<close> and the method \<open>rinex_metadata_lines\<close>, whose first
  result is falsy (\<open>None\<close> here) or the 7-tuple that line 331 unpacks.
\<close>

datatype call = Call string "string option list" | CallKw string "(string \<times> string) list"

record rinexfile =
  status :: nat
  filename :: string
  file_period :: string
  start_date :: datetime
  end_date :: datetime
  sample_rate :: string
  observable_type :: string
  file_compression :: "string option"
  station :: string
  calls :: "call list"

type_synonym dict = "(string \<times> string) list"

type_synonym metadata_vars = "string \<times> string \<times> dict \<times> dict \<times> dict \<times> dict \<times> dict"

record sitelogobj =
  sitelog_status :: nat
  sitelog_filename :: string
  four_character_id :: string
  rinex_metadata_lines :: "datetime \<Rightarrow> datetime \<Rightarrow> bool \<Rightarrow> metadata_vars option \<times> bool"

text \<open>
  What the run asks of the operating system and of the other modules. \<open>readlines\<close> is
  \<open>None\<close> where opening or reading the file raises. The external calls are taken to
  return; the file system is read as it was when the run started.
\<close>

record world =
  isfile :: "string \<Rightarrow> bool"
  abspath :: "string \<Rightarrow> string"
  dirname :: "string \<Rightarrow> string"
  relpath :: "string \<Rightarrow> string \<Rightarrow> string"
  path_join :: "string \<Rightarrow> string \<Rightarrow> string"
  readlines :: "string \<Rightarrow> string list option"
  SiteLog :: "string \<Rightarrow> sitelogobj"
  RinexFile :: "string \<Rightarrow> rinexfile"
  get_metadata :: "rinexfile \<Rightarrow> string"
  write_to_path :: "rinexfile \<Rightarrow> string \<Rightarrow> string option \<Rightarrow> string"
  now :: datetime

text \<open>
  The effects of a run and the two local variables that live across the iterations of
  the file loop: \<open>compression_var\<close> is the parameter \<open>compression\<close>, which line 379
  assigns, and \<open>modification_source\<close> is \<open>None\<close> while the name is unbound.
  \<open>ensured_dirs\<close> lists the directories created unless present (lines 155 to 157 and
  247 to 248); \<open>written\<close> lists the calls of \<open>write_to_path\<close>: the object as it was
  then, the folder and the compression passed.
\<close>

datatype level = INFO | WARNING | ERROR

datatype exn = NameError string | UnboundLocalError string | TypeError | OSError

record run_state =
  printed :: "string list"
  logged :: "(level \<times> string) list"
  ensured_dirs :: "string list"
  logfile :: "string option"
  written :: "(rinexfile \<times> string \<times> string option) list"
  compression_var :: "string option"
  modification_source :: "string option"

definition print :: "string \<Rightarrow> run_state \<Rightarrow> run_state" where
  "print msg st = st\<lparr>printed := printed st @ [msg]\<rparr>"

definition logger :: "level \<Rightarrow> string \<Rightarrow> run_state \<Rightarrow> run_state" where
  "logger lv msg st = st\<lparr>logged := logged st @ [(lv, msg)]\<rparr>"

definition ensure_dir :: "string \<Rightarrow> run_state \<Rightarrow> run_state" where
  "ensure_dir d st = st\<lparr>ensured_dirs := ensured_dirs st @ [d]\<rparr>"

definition call_on :: "call \<Rightarrow> rinexfile \<Rightarrow> rinexfile" where
  "call_on c rf = rf\<lparr>calls := calls rf @ [c]\<rparr>"

definition add_comment :: "string \<Rightarrow> rinexfile \<Rightarrow> rinexfile" where
  "add_comment c rf = call_on (Call ''add_comment'' [Some c]) rf"

text \<open>
  One iteration of the file loop ends in \<open>continue\<close> (\<open>Skip\<close>), in an exception
  (\<open>Raise\<close>) or goes on with a value (\<open>Go\<close>).
\<close>

datatype 'a step = Go 'a | Skip | Raise exn

definition then_step ::
  "'a step \<times> run_state \<Rightarrow> ('a \<Rightarrow> run_state \<Rightarrow> 'b step \<times> run_state) \<Rightarrow> 'b step \<times> run_state" where
  "then_step r f =
     (case r of (Go x, st) \<Rightarrow> f x st | (Skip, st) \<Rightarrow> (Skip, st) | (Raise e, st) \<Rightarrow> (Raise e, st))"

section \<open>The per-file pipeline (lines 231 to 384)\<close>

text \<open>
  Lines 233 to 250: the file's own line in the log, the same-folder check and the
  output subfolder. \<open>outputfolder'\<close> is the absolute output folder of line 153.
\<close>

definition locate ::
  "config \<Rightarrow> world \<Rightarrow> string \<Rightarrow> string \<Rightarrow> run_state \<Rightarrow> string step \<times> run_state" where
  "locate cfg w outputfolder' file st0 =
     (let st1 = logger INFO (''# File : '' @ file) st0 in
      if abspath w (dirname w file) = outputfolder' then
        (Skip, logger ERROR (''30 - Input and output folders are the same ! - '' @ file) st1)
      else if truthy (reconstruct cfg) then
        (if \<not> contains file (the (reconstruct cfg)) then
           (Skip, logger ERROR
              (''31 - The subfolder can not be reconstructed for file - '' @ file) st1)
         else
           (let relpath = relpath w (dirname w file) (the (reconstruct cfg));
                myoutputfolder = path_join w outputfolder' relpath
            in (Go myoutputfolder, ensure_dir myoutputfolder st1)))
      else (Go outputfolder', st1))"

text \<open>
  Lines 253 to 272: the load and its status. At status 2 the message is formatted from
  \<open>err_msg\<close>, a name bound nowhere in the module: evaluating it raises \<open>NameError\<close>
  before the logger is called.
\<close>

definition load :: "config \<Rightarrow> world \<Rightarrow> string \<Rightarrow> run_state \<Rightarrow> rinexfile step \<times> run_state" where
  "load cfg w file st =
     (let rinexfileobj = RinexFile w file in
      if status rinexfileobj = 1 then
        (Skip, logger ERROR
           (ljust60 ''01 - The specified file does not exists'' @ '' - '' @ file) st)
      else if status rinexfileobj = 2 then
        (Raise (NameError ''err_msg''), st)
      else if status rinexfileobj = 3 then
        (Skip, logger ERROR (ljust60 ''03 - Invalid or empty Zip file'' @ '' - '' @ file) st)
      else if status rinexfileobj = 4 then
        (Skip, logger ERROR
           (ljust60 ''04 - Invalid Compressed Rinex file'' @ '' - '' @ file) st)
      else
        (Go rinexfileobj,
         if verbose cfg then
           logger INFO (''File Metadata :'' @ [CHR 0x0A] @ get_metadata w rinexfileobj) st
         else st))"

text \<open>Lines 278 to 302: the long name.\<close>

definition resolve_site ::
  "config \<Rightarrow> (string \<rightharpoonup> string) \<Rightarrow> string \<Rightarrow> rinexfile \<Rightarrow> run_state \<Rightarrow> string \<times> run_state" where
  "resolve_site cfg nine_char_dict file rinexfileobj st =
     (if truthy (ninecharfile cfg) then
        (case nine_char_dict (lower (take 4 (filename rinexfileobj))) of
           None \<Rightarrow>
             (upper (take 4 (filename rinexfileobj)) @ ''00XXX'',
              logger WARNING
                (''32 - Station's country not retrevied, will not be properly renamed - ''
                  @ file) st)
         | Some site \<Rightarrow> (site, st))
      else
        (upper (take 4 (filename rinexfileobj)) @ ''00XXX'',
         logger WARNING
           (''32 - Station's country not retrevied, will not be properly renamed - ''
             @ file) st))"

definition timeformat :: "rinexfile \<Rightarrow> string" where
  "timeformat rinexfileobj =
     (if file_period rinexfileobj = ''01D'' then ''%Y%j0000'' else ''%Y%j%H%M'')"

definition long_name :: "string \<Rightarrow> rinexfile \<Rightarrow> string" where
  "long_name site rinexfileobj =
     join ''_'' [site,
                 strftime (timeformat rinexfileobj) (start_date rinexfileobj),
                 file_period rinexfileobj,
                 sample_rate rinexfileobj,
                 observable_type rinexfileobj @ ''O.rnx'']"

text \<open>Lines 274 to 302: the marker, then the long name.\<close>

definition rename ::
  "config \<Rightarrow> (string \<rightharpoonup> string) \<Rightarrow> string \<Rightarrow> rinexfile \<Rightarrow> run_state \<Rightarrow> rinexfile step \<times> run_state" where
  "rename cfg nine_char_dict file rinexfileobj st =
     (let rf1 = rinexfileobj\<lparr>filename := marker_filename (marker cfg) (filename rinexfileobj)\<rparr>
      in if name cfg then
           (case resolve_site cfg nine_char_dict file rf1 st of
              (site, st1) \<Rightarrow> (Go (rf1\<lparr>filename := long_name site rf1\<rparr>), st1))
         else (Go rf1, st))"

text \<open>
  Lines 304 to 340: the station log. The \<open>continue\<close> of line 318 stands in the
  \<open>else\<close> branch, with the warning 34; the branch of the error 33 has none and goes on
  to line 322.
\<close>

definition apply_metadata :: "metadata_vars \<Rightarrow> rinexfile \<Rightarrow> rinexfile" where
  "apply_metadata metadata_vars rinexfileobj =
     (case metadata_vars of
        (fourchar_id, obs_type, agencies, receiver, antenna, antenna_pos, antenna_delta) \<Rightarrow>
          call_on (Call ''set_observable_type'' [Some obs_type])
         (call_on (CallKw ''set_agencies'' agencies)
         (call_on (CallKw ''set_antenna_delta'' antenna_delta)
         (call_on (CallKw ''set_antenna_pos'' antenna_pos)
         (call_on (CallKw ''set_antenna'' antenna)
         (call_on (CallKw ''set_receiver'' receiver)
         (call_on (Call ''set_marker'' [Some fourchar_id]) rinexfileobj)))))))"

definition station_check ::
  "config \<Rightarrow> sitelogobj \<Rightarrow> string \<Rightarrow> rinexfile \<Rightarrow> run_state \<Rightarrow> unit step \<times> run_state" where
  "station_check cfg slo file rinexfileobj st =
     (let sitelog_sta_code = lower (four_character_id slo);
          station_meta = lower (station rinexfileobj)
      in
      if sitelog_sta_code \<noteq> station_meta then
        (if \<not> force cfg then
           (Go (), logger ERROR
              (''33 - File's station does not correspond to provided sitelog - use -f option to force ''
                @ file) st)
         else
           (Skip, logger WARNING
              (''34 - File's station does not correspond to provided sitelog, processing anyway - ''
                @ file) st))
      else (Go (), st))"

definition resolve_period ::
  "config \<Rightarrow> sitelogobj \<Rightarrow> string \<Rightarrow> rinexfile \<Rightarrow> run_state \<Rightarrow> rinexfile step \<times> run_state" where
  "resolve_period cfg slo file rinexfileobj st =
     (case rinex_metadata_lines slo (start_date rinexfileobj) (end_date rinexfileobj)
             (ignore cfg) of
        (None, ignored) \<Rightarrow>
          (Skip, logger ERROR
             (''35 - No instrumentation corresponding to the data period on the sitelog : ''
               @ file) st)
      | (Some metadata_vars, ignored) \<Rightarrow>
          (Go (apply_metadata metadata_vars rinexfileobj),
           if ignored then
             logger WARNING
               (''36 - Instrumentation cames from merged periods of sitelog with different firmwares, processing anyway - ''
                 @ file) st
           else st))"

definition sitelog_step ::
  "config \<Rightarrow> sitelogobj \<Rightarrow> string \<Rightarrow> rinexfile \<Rightarrow> run_state \<Rightarrow> rinexfile step \<times> run_state" where
  "sitelog_step cfg slo file rinexfileobj st0 =
     then_step
       (station_check cfg slo file rinexfileobj
          (st0\<lparr>modification_source := Some (sitelog_filename slo)\<rparr>))
       (\<lambda>_ st. resolve_period cfg slo file rinexfileobj st)"

text \<open>Lines 342 to 366: the keyword overrides; \<open>dict.get\<close> is \<open>map_of\<close>.\<close>

definition kw_step :: "dict \<Rightarrow> rinexfile \<Rightarrow> run_state \<Rightarrow> rinexfile step \<times> run_state" where
  "kw_step kw rinexfileobj st =
     (Go (call_on (Call ''set_observable_type'' [map_of kw ''observables''])
         (call_on (Call ''set_agencies'' [map_of kw ''operator'', map_of kw ''agency''])
         (call_on (Call ''set_antenna_delta''
                     [map_of kw ''antenna_X_delta'', map_of kw ''antenna_Y_delta'',
                      map_of kw ''antenna_Z_delta''])
         (call_on (Call ''set_antenna_pos''
                     [map_of kw ''antenna_X_pos'', map_of kw ''antenna_Y_pos'',
                      map_of kw ''antenna_Z_pos''])
         (call_on (Call ''set_antenna'' [map_of kw ''antenna_serial'', map_of kw ''antenna_type''])
         (call_on (Call ''set_receiver''
                     [map_of kw ''receiver_serial'', map_of kw ''receiver_type'',
                      map_of kw ''receiver_fw''])
         (call_on (Call ''set_marker'' [map_of kw ''station'']) rinexfileobj))))))),
      st\<lparr>modification_source := Some ''command line''\<rparr>)"

text \<open>
  Lines 368 to 384: the comments and the write. Reading \<open>modification_source\<close> while
  it is unbound raises \<open>UnboundLocalError\<close>. Line 379 assigns the parameter
  \<open>compression\<close>, which the next iteration reads.
\<close>

definition comment_from :: "string \<Rightarrow> run_state \<Rightarrow> rinexfile \<Rightarrow> exn + rinexfile" where
  "comment_from prefix st rinexfileobj =
     (case modification_source st of
        None \<Rightarrow> Inl (UnboundLocalError ''modification_source'')
      | Some src \<Rightarrow> Inr (add_comment (prefix @ src) rinexfileobj))"

definition finish ::
  "config \<Rightarrow> world \<Rightarrow> string \<Rightarrow> rinexfile \<Rightarrow> run_state \<Rightarrow> string step \<times> run_state" where
  "finish cfg w myoutputfolder rinexfileobj st0 =
     (let st1 = (if verbose cfg then
                   logger INFO (''File Metadata :'' @ [CHR 0x0A] @ get_metadata w rinexfileobj) st0
                 else st0);
          rf1 = add_comment (''rinexmoded on '' @ strftime ''%Y-%m-%d %H:%M'' (now w)) rinexfileobj
      in
      case (if truthy (sitelog cfg) \<or> kw_truthy (modification_kw cfg)
            then comment_from ''rinexmoded from '' st1 rf1 else Inr rf1) of
        Inl e \<Rightarrow> (Raise e, st1)
      | Inr rf2 \<Rightarrow>
          (case (if truthy (marker cfg)
                 then comment_from ''file assigned  from '' st1 rf2 else Inr rf2) of
             Inl e \<Rightarrow> (Raise e, st1)
           | Inr rf3 \<Rightarrow>
               (let compression = (if \<not> truthy (compression_var st1)
                                   then file_compression rf3 else compression_var st1);
                    st2 = st1\<lparr>compression_var := compression\<rparr>;
                    outputfile = write_to_path w rf3 myoutputfolder compression;
                    st3 = st2\<lparr>written := written st2 @ [(rf3, myoutputfolder, compression)]\<rparr>
                in (Go outputfile,
                    if verbose cfg then logger INFO (''Output file : '' @ outputfile) st3
                    else st3))))"

text \<open>
  One iteration of the loop of line 231: first the lines 233 to 302, which give the
  output subfolder and the loaded, renamed object, then the lines 304 to 384.
\<close>

definition open_file ::
  "config \<Rightarrow> world \<Rightarrow> (string \<rightharpoonup> string) \<Rightarrow> string \<Rightarrow> string \<Rightarrow> run_state
     \<Rightarrow> (string \<times> rinexfile) step \<times> run_state" where
  "open_file cfg w nine_char_dict outputfolder' file st =
     then_step (locate cfg w outputfolder' file st) (\<lambda>myoutputfolder st.
     then_step (load cfg w file st) (\<lambda>rf st.
     then_step (rename cfg nine_char_dict file rf st) (\<lambda>rf st.
       (Go (myoutputfolder, rf), st))))"

definition process_file ::
  "config \<Rightarrow> world \<Rightarrow> sitelogobj option \<Rightarrow> (string \<rightharpoonup> string) \<Rightarrow> string \<Rightarrow> string \<Rightarrow> run_state
     \<Rightarrow> string step \<times> run_state" where
  "process_file cfg w sitelogobj nine_char_dict outputfolder' file st =
     then_step (open_file cfg w nine_char_dict outputfolder' file st) (\<lambda>(myoutputfolder, rf) st.
     then_step (if truthy (sitelog cfg) then sitelog_step cfg (the sitelogobj) file rf st
                else (Go rf, st)) (\<lambda>rf st.
     then_step (if kw_truthy (modification_kw cfg) then kw_step (the (modification_kw cfg)) rf st
                else (Go rf, st)) (\<lambda>rf st.
     finish cfg w myoutputfolder rf st)))"

text \<open>
  How a run ends: \<open>Done\<close> is the \<open>return\<close> of line 388, \<open>Abort\<close> one of the
  returns that follow a printed error before the loop, \<open>Raised\<close> an exception that
  leaves \<open>rinexmod\<close>.
\<close>

datatype outcome = Done | Abort | Raised exn

fun files_loop ::
  "config \<Rightarrow> world \<Rightarrow> sitelogobj option \<Rightarrow> (string \<rightharpoonup> string) \<Rightarrow> string \<Rightarrow> string list \<Rightarrow> run_state
     \<Rightarrow> outcome \<times> run_state" where
  "files_loop cfg w sitelogobj nine_char_dict outputfolder' [] st = (Done, st)"
| "files_loop cfg w sitelogobj nine_char_dict outputfolder' (file # rest) st =
     (case process_file cfg w sitelogobj nine_char_dict outputfolder' file st of
        (Raise e, st') \<Rightarrow> (Raised e, st')
      | (Skip, st') \<Rightarrow> files_loop cfg w sitelogobj nine_char_dict outputfolder' rest st'
      | (Go outputfile, st') \<Rightarrow> files_loop cfg w sitelogobj nine_char_dict outputfolder' rest st')"

section \<open>The run (lines 122 to 229 and 386 to 388)\<close>

definition acceptable_keywords :: "string list" where
  "acceptable_keywords =
     [''station'', ''receiver_serial'', ''receiver_type'', ''receiver_fw'',
      ''antenna_serial'', ''antenna_type'',
      ''antenna_X_pos'', ''antenna_Y_pos'', ''antenna_Z_pos'',
      ''antenna_X_delta'', ''antenna_Y_delta'', ''antenna_Z_delta'',
      ''operator'', ''agency'', ''observables'']"

text \<open>Lines 198 to 201: the first key that is not acceptable, if there is one.\<close>

fun check_keywords :: "string list \<Rightarrow> string option" where
  "check_keywords [] = None"
| "check_keywords (kw # rest) =
     (if kw \<notin> set acceptable_keywords then Some kw else check_keywords rest)"

text \<open>
  Lines 206 to 215: the list of files. With \<open>lone\<close> the argument itself is the one
  item of the list; where the argument is a list then, the item is no string and
  line 233 raises \<open>TypeError\<close> (\<open>Inl\<close> of the inner sum). \<open>None\<close>: the list file
  cannot be read.
\<close>

definition read_rinexlist :: "config \<Rightarrow> world \<Rightarrow> (exn + string list) option" where
  "read_rinexlist cfg w =
     (if lone cfg then
        (case rinexlist cfg of PathArg p \<Rightarrow> Some (Inr [p]) | ListArg l \<Rightarrow> Some (Inl TypeError))
      else
        (case rinexlist cfg of
           ListArg l \<Rightarrow> Some (Inr l)
         | PathArg p \<Rightarrow>
             (case readlines w p of None \<Rightarrow> None | Some ls \<Rightarrow> Some (Inr (map strip ls)))))"

text \<open>Lines 203 to 388, after the checks of the arguments.\<close>

definition run_files ::
  "config \<Rightarrow> world \<Rightarrow> sitelogobj option \<Rightarrow> string \<Rightarrow> run_state \<Rightarrow> outcome \<times> run_state" where
  "run_files cfg w sitelogobj outputfolder' st =
     (case read_rinexlist cfg w of
        None \<Rightarrow>
          (Abort, print (''# ERROR : The input file is not a list : ''
                          @ (case rinexlist cfg of PathArg p \<Rightarrow> p | ListArg l \<Rightarrow> [])) st)
      | Some items \<Rightarrow>
          (if truthy (ninecharfile cfg) \<and> \<not> isfile w (the (ninecharfile cfg)) then
             (Abort, print (''# ERROR : The specified 9-chars. list file does not exists : ''
                             @ the (ninecharfile cfg)) st)
           else if truthy (ninecharfile cfg) \<and> readlines w (the (ninecharfile cfg)) = None then
             (Raised OSError, st)
           else
             (let nine_char_dict =
                    (if truthy (ninecharfile cfg)
                     then build_nine_char_dict (the (readlines w (the (ninecharfile cfg))))
                     else Map.empty)
              in case items of
                   Inl e \<Rightarrow> (Raised e, st)
                 | Inr files \<Rightarrow> files_loop cfg w sitelogobj nine_char_dict outputfolder' files st)))"

text \<open>Lines 178 to 201, then the rest of the run.\<close>

definition keyword_stage ::
  "config \<Rightarrow> world \<Rightarrow> sitelogobj option \<Rightarrow> string \<Rightarrow> run_state \<Rightarrow> outcome \<times> run_state" where
  "keyword_stage cfg w sitelogobj outputfolder' st =
     (if kw_truthy (modification_kw cfg) then
        (case check_keywords (map fst (the (modification_kw cfg))) of
           Some kw \<Rightarrow>
             (Abort, print (''# ERROR : '' @ [CHR 0x27] @ kw @ [CHR 0x27]
                             @ '' is not an acceptable keyword for header modification.'') st)
         | None \<Rightarrow> run_files cfg w sitelogobj outputfolder' st)
      else run_files cfg w sitelogobj outputfolder' st)"

text \<open>Lines 153 to 166: the output folder and the log file.\<close>

definition open_log :: "config \<Rightarrow> world \<Rightarrow> run_state \<Rightarrow> run_state" where
  "open_log cfg w st0 =
     (let outputfolder' = abspath w (outputfolder cfg);
          st1 = ensure_dir outputfolder' st0;
          dt = strftime ''%Y%m%d%H%M%S'' (now w)
      in st1\<lparr>logfile := Some (path_join w outputfolder' (dt @ ''_'' @ ''rinexmod.log''))\<rparr>)"

text \<open>Lines 153 to 176, then the rest of the run.\<close>

definition prepare :: "config \<Rightarrow> world \<Rightarrow> run_state \<Rightarrow> outcome \<times> run_state" where
  "prepare cfg w st0 =
     (let outputfolder' = abspath w (outputfolder cfg);
          st2 = open_log cfg w st0
      in
      if truthy (sitelog cfg) then
        (let sitelogobj = SiteLog w (the (sitelog cfg)) in
         if sitelog_status sitelogobj \<noteq> 0 then
           (Abort, print (''# ERROR : The sitelog is not parsable : '' @ the (sitelog cfg)) st2)
         else keyword_stage cfg w (Some sitelogobj) outputfolder' st2)
      else keyword_stage cfg w None outputfolder' st2)"

definition initial_state :: "config \<Rightarrow> run_state" where
  "initial_state cfg =
     \<lparr>printed = [], logged = [], ensured_dirs = [], logfile = None, written = [],
      compression_var = compression cfg, modification_source = None\<rparr>"

text \<open>Lines 138 to 144: the two warnings.\<close>

definition warn_unused :: "config \<Rightarrow> run_state \<Rightarrow> run_state" where
  "warn_unused cfg st0 =
     (let st1 = (if force cfg \<and> \<not> truthy (sitelog cfg) then
                   print ''# WARNING : --force option is meaningful only when using also --sitelog option'' st0
                 else st0)
      in if ignore cfg \<and> \<not> truthy (sitelog cfg) then
           print ''# WARNING : --ignore option is meaningful only when using also --sitelog option'' st1
         else st1)"

text \<open>Lines 128 to 151, then the rest of the run.\<close>

definition rinexmod :: "config \<Rightarrow> world \<Rightarrow> outcome \<times> run_state" where
  "rinexmod cfg w =
     (let st0 = initial_state cfg in
      if truthy (sitelog cfg) \<and> kw_truthy (modification_kw cfg) then
        (Abort, print (''# ERROR : If you get metadata from sitelog, don't provide arguments for modification (-k, --modification_kw option) !'') st0)
      else if \<not> truthy (sitelog cfg) \<and> \<not> kw_truthy (modification_kw cfg)
              \<and> \<not> truthy (marker cfg) \<and> \<not> name cfg then
        (Abort, print (''# ERROR : No action asked, provide at least one of the following args : --sitelog, --modification_kw, --marker, --name.'') st0)
      else
        (let st2 = warn_unused cfg st0 in
         case rinexlist cfg of
           ListArg l \<Rightarrow> prepare cfg w st2
         | PathArg p \<Rightarrow>
             (if \<not> isfile w p then
                (Abort, print (''# ERROR : The input file doesn't exist : '' @ p) st2)
              else prepare cfg w st2)))"

section \<open>A concrete world and concrete runs\<close>

text \<open>
  An input folder \<open>/data/in\<close> with observation files of the stations ABCD and EFGH, one
  file that is no observation file (status 2), and an output folder \<open>/data/out\<close>. All
  paths are absolute and normalised, so \<open>abspath\<close> changes nothing.
\<close>

definition sample_date :: datetime where
  "sample_date = \<lparr>year = 2021, month = 3, day = 15, hour = 13, minute = 45, second = 7\<rparr>"

definition sample_rinexfile :: "nat \<Rightarrow> string \<Rightarrow> string \<Rightarrow> string \<Rightarrow> string option \<Rightarrow> rinexfile" where
  "sample_rinexfile st fn sta period cmp =
     \<lparr>status = st, filename = fn, file_period = period, start_date = sample_date,
      end_date = sample_date\<lparr>hour := 23, minute := 59\<rparr>, sample_rate = ''30S'',
      observable_type = ''M'', file_compression = cmp, station = sta, calls = []\<rparr>"

definition sample_dirname :: "string \<Rightarrow> string" where
  "sample_dirname p = rev (drop 1 (dropWhile (\<lambda>c. c \<noteq> CHR ''/'') (rev p)))"

definition sample_basename :: "string \<Rightarrow> string" where
  "sample_basename p = rev (takeWhile (\<lambda>c. c \<noteq> CHR ''/'') (rev p))"

definition sample_metadata :: metadata_vars where
  "sample_metadata =
     (''ABCD'', ''GPS'', [(''operator'', ''OPR''), (''agency'', ''AGN'')],
      [(''serial'', ''R1''), (''type'', ''RCV''), (''firmware'', ''1.0'')],
      [(''serial'', ''A1''), (''type'', ''ANT'')],
      [(''X'', ''1''), (''Y'', ''2''), (''Z'', ''3'')],
      [(''X'', ''0''), (''Y'', ''0''), (''Z'', ''0'')])"

text \<open>
  The station log of ABCD. Its resolver has instrumentation for 2021 only; with
  \<open>ignore\<close> it reports a merge of periods.
\<close>

definition sample_sitelog :: "string \<Rightarrow> sitelogobj" where
  "sample_sitelog path =
     \<lparr>sitelog_status = 0, sitelog_filename = sample_basename path, four_character_id = ''ABCD'',
      rinex_metadata_lines =
        (\<lambda>s e ign. if year s = 2021 then (Some sample_metadata, ign) else (None, False))\<rparr>"

definition sample_load :: "string \<Rightarrow> rinexfile" where
  "sample_load path =
     (if path = ''/data/in/abcd0740.21d.Z'' then
        sample_rinexfile 0 ''abcd0740.21d.Z'' ''ABCD'' ''01D'' (Some ''Z'')
      else if path = ''/data/in/abcd0750.21d.gz'' then
        sample_rinexfile 0 ''abcd0750.21d.gz'' ''ABCD'' ''01D'' (Some ''gz'')
      else if path = ''/data/in/efgh0740.21d.Z'' then
        sample_rinexfile 0 ''efgh0740.21d.Z'' ''EFGH'' ''01D'' (Some ''Z'')
      else if path = ''/data/in/abcd074n.21d.Z'' then
        sample_rinexfile 0 ''abcd074n.21d.Z'' ''ABCD'' ''01H'' (Some ''Z'')
      else if path = ''/data/in/abcd0740.19d.Z'' then
        (sample_rinexfile 0 ''abcd0740.19d.Z'' ''ABCD'' ''01D'' (Some ''Z''))
          \<lparr>start_date := sample_date\<lparr>year := 2019\<rparr>, end_date := sample_date\<lparr>year := 2019\<rparr>\<rparr>
      else if path = ''/data/out/abcd0740.21d.Z'' then
        sample_rinexfile 0 ''abcd0740.21d.Z'' ''ABCD'' ''01D'' (Some ''Z'')
      else if path = ''/data/in/notes.21n.Z'' then
        sample_rinexfile 2 ''notes.21n.Z'' [] [] None
      else sample_rinexfile 1 (sample_basename path) [] [] None)"

definition sample_world :: world where
  "sample_world =
     \<lparr>isfile = (\<lambda>p. True), abspath = (\<lambda>p. p), dirname = sample_dirname,
      relpath = (\<lambda>p start. drop (length start) p),
      path_join = (\<lambda>a b. a @ ''/'' @ b),
      readlines = (\<lambda>p. Some []),
      SiteLog = sample_sitelog, RinexFile = sample_load,
      get_metadata = (\<lambda>rf. filename rf),
      write_to_path = (\<lambda>rf folder cmp. folder @ ''/'' @ filename rf),
      now = sample_date\<rparr>"

definition sample_config :: config where
  "sample_config =
     \<lparr>rinexlist = ListArg [], outputfolder = ''/data/out'', marker = None, name = False,
      lone = False, sitelog = None, force = False, reconstruct = None, ignore = False,
      ninecharfile = None, modification_kw = None, verbose = False, compression = None\<rparr>"

section \<open>Properties\<close>

lemma length_lower: "length (lower s) = length s"
  by (simp add: lower_def)

lemma nine_char_loop_absent:
  "\<forall>l \<in> set ls. lower (take 4 l) \<noteq> k \<Longrightarrow> nine_char_loop ls d k = d k"
  by (induction ls arbitrary: d) auto

lemma nine_char_loop_append:
  "nine_char_loop (xs @ ys) d = nine_char_loop ys (nine_char_loop xs d)"
  by (induction xs arbitrary: d) auto

lemma dom_nine_char_loop:
  "dom (nine_char_loop ls d) = dom d \<union> (\<lambda>l. lower (take 4 l)) ` set ls"
  by (induction ls arbitrary: d) auto

text \<open>
  C9: the index built from a list of lines maps the lower-cased first four characters
  of a line to that line stripped of surrounding whitespace, and where several lines
  have the same key the last of them gives the value: for a line \<open>l\<close> followed only by
  lines of other keys, the entry at \<open>l\<close>'s key is \<open>strip l\<close>, whatever the earlier lines
  were (duplicates of the key included). The keys of the index are exactly the keys of
  the lines: no line is rejected, and building the index reports nothing.
\<close>

theorem nine_char_dict_last_wins:
  assumes "\<forall>l' \<in> set post. lower (take 4 l') \<noteq> lower (take 4 l)"
  shows "build_nine_char_dict (pre @ l # post) (lower (take 4 l)) = Some (strip l)
       \<and> dom (build_nine_char_dict (pre @ l # post))
           = (\<lambda>l. lower (take 4 l)) ` set (pre @ l # post)"
  using assms
  by (simp add: build_nine_char_dict_def nine_char_loop_append nine_char_loop_absent
        dom_nine_char_loop image_Un)

theorem nine_char_dict_last_wins_witness:
  "build_nine_char_dict
     [''ABCD00FRA'' @ [CHR 0x0A], ''agal00ITA'' @ [CHR 0x0A],
      ''Abcd00XXX '' @ [CHR 0x0A], ''efgh00DEU'' @ [CHR 0x0A]] ''abcd''
    = Some ''Abcd00XXX''"
proof -
  have later: "\<forall>l' \<in> set [''efgh00DEU'' @ [CHR 0x0A]].
                 lower (take 4 l') \<noteq> lower (take 4 (''Abcd00XXX '' @ [CHR 0x0A]))"
    by (simp add: lower_def lower_char_def)
  show ?thesis
    using nine_char_dict_last_wins
            [OF later, of "[''ABCD00FRA'' @ [CHR 0x0A], ''agal00ITA'' @ [CHR 0x0A]]"]
    by (simp add: lower_def lower_char_def strip_def is_space_def)
qed

text \<open>
  C10: for every non-empty marker, of any length, the marker step sets the file name to
  the lower-cased marker followed by the old name without its first four characters.
  Nothing checks the marker's length: the step always goes on, with the state as it
  was. The new name has the marker's length plus what the old name had beyond four
  characters, so that for a file name of at least four characters the length changes
  exactly when the marker's length is not four.
\<close>

theorem marker_step_any_length:
  assumes "m \<noteq> []"
  shows "marker_filename (Some m) fn = lower m @ drop 4 fn
       \<and> length (marker_filename (Some m) fn) = length m + (length fn - 4)
       \<and> (4 \<le> length fn \<longrightarrow>
            (length (marker_filename (Some m) fn) \<noteq> length fn \<longleftrightarrow> length m \<noteq> 4))
       \<and> (marker cfg = Some m \<and> \<not> name cfg \<longrightarrow>
            rename cfg nine_char_dict file rf st
              = (Go (rf\<lparr>filename := lower m @ drop 4 (filename rf)\<rparr>), st))"
  using assms
  by (auto simp: marker_filename_def truthy_def length_lower rename_def)

theorem marker_step_any_length_witness:
  "''AGAL0'' \<noteq> [] \<and> (4::nat) \<le> length ''abcd0740.21d.Z''
   \<and> marker (sample_config\<lparr>marker := Some ''AGAL0''\<rparr>) = Some ''AGAL0''
   \<and> \<not> name (sample_config\<lparr>marker := Some ''AGAL0''\<rparr>)
   \<and> marker_filename (Some ''AGAL0'') ''abcd0740.21d.Z'' = ''agal00740.21d.Z''
   \<and> length (marker_filename (Some ''AGAL0'') ''abcd0740.21d.Z'') \<noteq> length ''abcd0740.21d.Z''
   \<and> fst (rename (sample_config\<lparr>marker := Some ''AGAL0''\<rparr>) Map.empty
             ''/data/in/abcd0740.21d.Z'' (sample_load ''/data/in/abcd0740.21d.Z'')
             (initial_state sample_config))
       = Go ((sample_load ''/data/in/abcd0740.21d.Z'')\<lparr>filename := ''agal00740.21d.Z''\<rparr>)"
  using marker_step_any_length
          [of "''AGAL0''" "''abcd0740.21d.Z''" "sample_config\<lparr>marker := Some ''AGAL0''\<rparr>"
              Map.empty "''/data/in/abcd0740.21d.Z''" "sample_load ''/data/in/abcd0740.21d.Z''"
              "initial_state sample_config"]
  by (simp add: lower_def lower_char_def sample_config_def sample_load_def
        sample_rinexfile_def)

text \<open>
  C5: the long name is the site id, the time token, the period class, the sample rate
  and the observable type followed by \<open>O.rnx\<close>, joined by underscores. The time token
  is the four digits of the year and the three of the day of the year, followed by
  \<open>0000\<close> for the period class \<open>01D\<close>, whatever the clock fields of the start time
  are, and by the two digits of the hour and the two of the minute for any other period
  class. A run that asks for the long name gives the file that name, for the site id
  that the run resolved.
\<close>

theorem long_name_format:
  "long_name site rf =
     site @ ''_'' @ four_digits (year (start_date rf)) @ three_digits (day_of_year (start_date rf))
       @ (if file_period rf = ''01D'' then ''0000''
          else two_digits (hour (start_date rf)) @ two_digits (minute (start_date rf)))
       @ ''_'' @ file_period rf @ ''_'' @ sample_rate rf @ ''_'' @ observable_type rf @ ''O.rnx''
   \<and> (name cfg \<longrightarrow>
        fst (rename cfg nine_char_dict file rf st) =
          Go (rf\<lparr>filename :=
                long_name
                  (fst (resolve_site cfg nine_char_dict file
                          (rf\<lparr>filename := marker_filename (marker cfg) (filename rf)\<rparr>) st))
                  rf\<rparr>))"
  by (simp add: long_name_def timeformat_def directive_def rename_def split: prod.splits)

theorem long_name_format_witness:
  "name (sample_config\<lparr>name := True\<rparr>)
   \<and> long_name ''ABCD00XXX'' (sample_load ''/data/in/abcd0740.21d.Z'')
       = ''ABCD00XXX_20210740000_01D_30S_MO.rnx''
   \<and> long_name ''ABCD00XXX'' (sample_load ''/data/in/abcd074n.21d.Z'')
       = ''ABCD00XXX_20210741345_01H_30S_MO.rnx''
   \<and> fst (rename (sample_config\<lparr>name := True\<rparr>) Map.empty ''/data/in/abcd0740.21d.Z''
             (sample_load ''/data/in/abcd0740.21d.Z'') (initial_state sample_config))
       = Go ((sample_load ''/data/in/abcd0740.21d.Z'')
               \<lparr>filename := ''ABCD00XXX_20210740000_01D_30S_MO.rnx''\<rparr>)"
  using long_name_format
          [of "''ABCD00XXX''" "sample_load ''/data/in/abcd0740.21d.Z''"
              "sample_config\<lparr>name := True\<rparr>" Map.empty "''/data/in/abcd0740.21d.Z''"
              "initial_state sample_config"]
        long_name_format
          [of "''ABCD00XXX''" "sample_load ''/data/in/abcd074n.21d.Z''"
              "sample_config\<lparr>name := True\<rparr>" Map.empty "''/data/in/abcd074n.21d.Z''"
              "initial_state sample_config"]
  by (simp add: sample_config_def sample_load_def sample_rinexfile_def sample_date_def
        resolve_site_def marker_filename_def truthy_def upper_def upper_char_def
        four_digits_def three_digits_def two_digits_def digit_char_def day_of_year_def
        days_before_month_def is_leap_def)

subsection \<open>The file loop\<close>

lemma then_step_Go: "then_step (Go x, st) f = f x st"
  by (simp add: then_step_def)

lemma then_step_Skip: "then_step (Skip, st) f = (Skip, st)"
  by (simp add: then_step_def)

lemma then_step_Raise: "then_step (Raise e, st) f = (Raise e, st)"
  by (simp add: then_step_def)

lemmas then_step_simps = then_step_Go then_step_Skip then_step_Raise

lemma locate_same_folder:
  "abspath w (dirname w file) = out \<Longrightarrow>
   locate cfg w out file st =
     (Skip, logger ERROR (''30 - Input and output folders are the same ! - '' @ file)
              (logger INFO (''# File : '' @ file) st))"
  by (simp add: locate_def)

text \<open>
  C8: whatever the other arguments of the run are, a file whose directory has the
  absolute path of the output folder is skipped at the first check of the iteration:
  the iteration adds the file's line and the error of code 30 to the log and nothing
  else (nothing is loaded, modified or written), and the loop goes on with the files
  that follow.
\<close>

theorem same_folder_skipped:
  assumes "abspath w (dirname w file) = abspath w (outputfolder cfg)"
  shows "process_file cfg w slo nine (abspath w (outputfolder cfg)) file st
           = (Skip, logger ERROR (''30 - Input and output folders are the same ! - '' @ file)
                      (logger INFO (''# File : '' @ file) st))
       \<and> files_loop cfg w slo nine (abspath w (outputfolder cfg)) (file # rest) st
           = files_loop cfg w slo nine (abspath w (outputfolder cfg)) rest
               (logger ERROR (''30 - Input and output folders are the same ! - '' @ file)
                  (logger INFO (''# File : '' @ file) st))
       \<and> written (logger ERROR (''30 - Input and output folders are the same ! - '' @ file)
                  (logger INFO (''# File : '' @ file) st)) = written st"
  using assms
  by (simp add: process_file_def open_file_def locate_same_folder then_step_simps logger_def)

theorem same_folder_skipped_witness:
  "fst (process_file (sample_config\<lparr>modification_kw := Some [(''station'', ''AGAL'')]\<rparr>)
          sample_world None Map.empty ''/data/out'' ''/data/out/abcd0740.21d.Z''
          (initial_state sample_config)) = Skip"
proof -
  have same: "abspath sample_world (dirname sample_world ''/data/out/abcd0740.21d.Z'')
       = abspath sample_world
           (outputfolder (sample_config\<lparr>modification_kw := Some [(''station'', ''AGAL'')]\<rparr>))"
    by (simp add: sample_world_def sample_config_def sample_dirname_def)
  show ?thesis
    using same_folder_skipped [OF same, of None Map.empty "initial_state sample_config" "[]"]
    by (simp add: sample_world_def sample_config_def)
qed

subsection \<open>The checks of the arguments\<close>

lemma check_keywords_None:
  "check_keywords ks = None \<longleftrightarrow> (\<forall>k \<in> set ks. k \<in> set acceptable_keywords)"
  by (induction ks) auto

lemma check_keywords_Some:
  "(\<exists>k \<in> set ks. k \<notin> set acceptable_keywords) \<Longrightarrow> \<exists>bad. check_keywords ks = Some bad"
  using check_keywords_None [of ks] by (cases "check_keywords ks") auto

lemma open_log_quiet:
  "logged (open_log cfg w st) = logged st" "written (open_log cfg w st) = written st"
  by (simp_all add: open_log_def ensure_dir_def Let_def)

lemma warn_unused_quiet:
  "logged (warn_unused cfg st) = logged st" "written (warn_unused cfg st) = written st"
  by (simp_all add: warn_unused_def print_def Let_def)

lemma print_quiet:
  "logged (print m st) = logged st" "written (print m st) = written st"
  by (simp_all add: print_def)

lemma initial_state_quiet:
  "logged (initial_state cfg) = []" "written (initial_state cfg) = []"
  by (simp_all add: initial_state_def)

lemmas quiet_simps = open_log_quiet warn_unused_quiet print_quiet initial_state_quiet

lemma keyword_stage_bad:
  assumes "modification_kw cfg = Some kw" "kw \<noteq> []"
    and "\<exists>k \<in> set (map fst kw). k \<notin> set acceptable_keywords"
  shows "\<exists>bad. keyword_stage cfg w slo out st =
           (Abort, print (''# ERROR : '' @ [CHR 0x27] @ bad @ [CHR 0x27]
                           @ '' is not an acceptable keyword for header modification.'') st)"
proof -
  obtain bad where "check_keywords (map fst kw) = Some bad"
    using check_keywords_Some [OF assms(3)] by blast
  then show ?thesis
    using assms(1,2) by (auto simp add: keyword_stage_def kw_truthy_def)
qed

lemma rinexmod_bad_keyword:
  assumes "modification_kw cfg = Some kw" "kw \<noteq> []"
    and "\<exists>k \<in> set (map fst kw). k \<notin> set acceptable_keywords"
  shows "fst (rinexmod cfg w) = Abort \<and> logged (snd (rinexmod cfg w)) = []
       \<and> written (snd (rinexmod cfg w)) = []"
proof -
  have ks: "\<exists>bad. keyword_stage cfg w slo out st =
           (Abort, print (''# ERROR : '' @ [CHR 0x27] @ bad @ [CHR 0x27]
                           @ '' is not an acceptable keyword for header modification.'') st)"
    for slo out st
    using keyword_stage_bad [OF assms] by blast
  have prep: "fst (prepare cfg w st) = Abort \<and> logged (snd (prepare cfg w st)) = logged st
       \<and> written (snd (prepare cfg w st)) = written st" for st
  proof (cases "truthy (sitelog cfg) \<and> sitelog_status (SiteLog w (the (sitelog cfg))) \<noteq> 0")
    case True
    then show ?thesis by (simp add: prepare_def Let_def quiet_simps)
  next
    case False
    show ?thesis
    proof (cases "truthy (sitelog cfg)")
      case True
      obtain bad where "keyword_stage cfg w (Some (SiteLog w (the (sitelog cfg))))
              (abspath w (outputfolder cfg)) (open_log cfg w st) =
           (Abort, print (''# ERROR : '' @ [CHR 0x27] @ bad @ [CHR 0x27]
                           @ '' is not an acceptable keyword for header modification.'')
                     (open_log cfg w st))"
        using ks by blast
      with True False show ?thesis by (simp add: prepare_def Let_def quiet_simps)
    next
      case nosl: False
      obtain bad where "keyword_stage cfg w None
              (abspath w (outputfolder cfg)) (open_log cfg w st) =
           (Abort, print (''# ERROR : '' @ [CHR 0x27] @ bad @ [CHR 0x27]
                           @ '' is not an acceptable keyword for header modification.'')
                     (open_log cfg w st))"
        using ks by blast
      with nosl show ?thesis by (simp add: prepare_def Let_def quiet_simps)
    qed
  qed
  have kwt: "kw_truthy (modification_kw cfg)"
    using assms(1,2) by (simp add: kw_truthy_def)
  show ?thesis
    using kwt prep [of "warn_unused cfg (initial_state cfg)"]
    by (simp add: rinexmod_def Let_def quiet_simps split: rinexlist_arg.splits)
qed

lemma keyword_stage_good:
  assumes "modification_kw cfg = Some kw"
    and "\<forall>k \<in> set (map fst kw). k \<in> set acceptable_keywords"
  shows "keyword_stage cfg w slo out st = run_files cfg w slo out st"
  using assms check_keywords_None [of "map fst kw"]
  by (simp add: keyword_stage_def)

lemma rinexmod_good_keywords:
  assumes "modification_kw cfg = Some kw" "kw \<noteq> []"
    and "\<forall>k \<in> set (map fst kw). k \<in> set acceptable_keywords"
    and "\<not> truthy (sitelog cfg)" "rinexlist cfg = ListArg l \<or> (rinexlist cfg = PathArg p \<and> isfile w p)"
  shows "rinexmod cfg w = run_files cfg w None (abspath w (outputfolder cfg))
             (open_log cfg w (warn_unused cfg (initial_state cfg)))"
proof -
  have kwt: "kw_truthy (modification_kw cfg)"
    using assms(1,2) by (simp add: kw_truthy_def)
  show ?thesis
    using kwt assms(4,5) keyword_stage_good [OF assms(1,3)]
    by (auto simp add: rinexmod_def prepare_def Let_def)
qed


text \<open>
  C7: in a run with a keyword-override dictionary (one that is not empty), a key outside
  the fifteen accepted keywords aborts the run before the file loop: the run ends in an
  early return, and since every iteration of the loop starts with a line in the log, the
  empty log and the empty list of written files say that no file was processed. Where
  every key is accepted, the check of lines 198 to 201 lets the run go on to the list of
  files: the keyword stage is the rest of the run, and so is the whole run where no
  station log is given and the input list exists.
\<close>

theorem keyword_check:
  assumes "modification_kw cfg = Some kw" "kw \<noteq> []"
  shows "((\<exists>k \<in> set (map fst kw). k \<notin> set acceptable_keywords) \<longrightarrow>
            fst (rinexmod cfg w) = Abort \<and> logged (snd (rinexmod cfg w)) = []
            \<and> written (snd (rinexmod cfg w)) = [])
       \<and> ((\<forall>k \<in> set (map fst kw). k \<in> set acceptable_keywords) \<longrightarrow>
            keyword_stage cfg w slo out st = run_files cfg w slo out st
            \<and> (\<not> truthy (sitelog cfg)
                 \<and> (rinexlist cfg = ListArg l \<or> (rinexlist cfg = PathArg p \<and> isfile w p)) \<longrightarrow>
                rinexmod cfg w = run_files cfg w None (abspath w (outputfolder cfg))
                                   (open_log cfg w (warn_unused cfg (initial_state cfg)))))
       \<and> set acceptable_keywords =
            {''station'', ''receiver_serial'', ''receiver_type'', ''receiver_fw'',
             ''antenna_serial'', ''antenna_type'', ''antenna_X_pos'', ''antenna_Y_pos'',
             ''antenna_Z_pos'', ''antenna_X_delta'', ''antenna_Y_delta'', ''antenna_Z_delta'',
             ''operator'', ''agency'', ''observables''}
       \<and> length acceptable_keywords = 15 \<and> distinct acceptable_keywords"
proof -
  have "set acceptable_keywords =
            {''station'', ''receiver_serial'', ''receiver_type'', ''receiver_fw'',
             ''antenna_serial'', ''antenna_type'', ''antenna_X_pos'', ''antenna_Y_pos'',
             ''antenna_Z_pos'', ''antenna_X_delta'', ''antenna_Y_delta'', ''antenna_Z_delta'',
             ''operator'', ''agency'', ''observables''}"
    by (simp add: acceptable_keywords_def)
  moreover have "length acceptable_keywords = 15" "distinct acceptable_keywords"
    by (simp_all add: acceptable_keywords_def)
  ultimately show ?thesis
    using rinexmod_bad_keyword [OF assms, of w] keyword_stage_good [OF assms(1), of w slo out st]
      rinexmod_good_keywords [OF assms, of l p w]
    by blast
qed

theorem keyword_check_witness:
  "fst (rinexmod (sample_config\<lparr>rinexlist := ListArg [''/data/in/abcd0740.21d.Z''],
                    modification_kw := Some [(''station'', ''AGAL''), (''antena_type'', ''ANT'')]\<rparr>)
          sample_world) = Abort
   \<and> written (snd (rinexmod (sample_config\<lparr>rinexlist := ListArg [''/data/in/abcd0740.21d.Z''],
                    modification_kw := Some [(''station'', ''AGAL''), (''antena_type'', ''ANT'')]\<rparr>)
          sample_world)) = []
   \<and> fst (rinexmod (sample_config\<lparr>rinexlist := ListArg [''/data/in/abcd0740.21d.Z''],
                    modification_kw := Some [(''station'', ''AGAL''), (''antenna_type'', ''ANT'')]\<rparr>)
          sample_world) = Done
   \<and> length (written (snd (rinexmod (sample_config\<lparr>rinexlist := ListArg [''/data/in/abcd0740.21d.Z''],
                    modification_kw := Some [(''station'', ''AGAL''), (''antenna_type'', ''ANT'')]\<rparr>)
          sample_world))) = 1"
proof -
  let ?bad = "sample_config\<lparr>rinexlist := ListArg [''/data/in/abcd0740.21d.Z''],
                    modification_kw := Some [(''station'', ''AGAL''), (''antena_type'', ''ANT'')]\<rparr>"
  let ?good = "sample_config\<lparr>rinexlist := ListArg [''/data/in/abcd0740.21d.Z''],
                    modification_kw := Some [(''station'', ''AGAL''), (''antenna_type'', ''ANT'')]\<rparr>"
  have b1: "modification_kw ?bad = Some [(''station'', ''AGAL''), (''antena_type'', ''ANT'')]"
    and g1: "modification_kw ?good = Some [(''station'', ''AGAL''), (''antenna_type'', ''ANT'')]"
    by simp_all
  have ne: "[(''station'', ''AGAL''), (''antena_type'', ''ANT'')] \<noteq> []"
       "[(''station'', ''AGAL''), (''antenna_type'', ''ANT'')] \<noteq> []"
    by simp_all
  have bad: "\<exists>k \<in> set (map fst [(''station'', ''AGAL''), (''antena_type'', ''ANT'')]).
               k \<notin> set acceptable_keywords"
    by (simp add: acceptable_keywords_def)
  have good: "\<forall>k \<in> set (map fst [(''station'', ''AGAL''), (''antenna_type'', ''ANT'')]).
               k \<in> set acceptable_keywords"
    by (simp add: acceptable_keywords_def)
  have pre: "\<not> truthy (sitelog ?good)
     \<and> (rinexlist ?good = ListArg [''/data/in/abcd0740.21d.Z'']
          \<or> (rinexlist ?good = PathArg [] \<and> isfile sample_world []))"
    by (simp add: sample_config_def truthy_def)
  have run: "rinexmod ?good sample_world
      = run_files ?good sample_world None (abspath sample_world (outputfolder ?good))
          (open_log ?good sample_world (warn_unused ?good (initial_state ?good)))"
    using keyword_check [OF g1 ne(2), of sample_world None "[]" "initial_state sample_config"
                           "[''/data/in/abcd0740.21d.Z'']" "[]"] good pre
    by blast
  have fin: "fst (run_files ?good sample_world None (abspath sample_world (outputfolder ?good))
          (open_log ?good sample_world (warn_unused ?good (initial_state ?good)))) = Done
     \<and> length (written (snd (run_files ?good sample_world None
          (abspath sample_world (outputfolder ?good))
          (open_log ?good sample_world (warn_unused ?good (initial_state ?good)))))) = 1"
    by (simp add: run_files_def read_rinexlist_def sample_config_def sample_world_def truthy_def
          kw_truthy_def process_file_def open_file_def locate_def load_def rename_def
          sample_load_def sample_rinexfile_def sample_dirname_def marker_filename_def
          kw_step_def finish_def comment_from_def add_comment_def call_on_def logger_def
          open_log_def warn_unused_def initial_state_def ensure_dir_def then_step_simps Let_def)
  show ?thesis
    using keyword_check [OF b1 ne(1), of sample_world None "[]" "initial_state sample_config"
                           "[]" "[]"] bad run fin
    by simp
qed

subsection \<open>The station log\<close>

lemma station_check_Go:
  assumes "station_check cfg slo file rf st = (Go u, st2)"
  shows "modification_source st2 = modification_source st \<and> written st2 = written st
       \<and> compression_var st2 = compression_var st"
  using assms
  by (auto simp: station_check_def Let_def logger_def split: if_splits)

lemma finish_bound:
  assumes "modification_source st = Some src"
  shows "\<exists>outputfile st' rf' c.
           finish cfg w mo rf st = (Go outputfile, st')
         \<and> written st' = written st @ [(rf', mo, c)]
         \<and> filter (\<lambda>e. fst e \<noteq> INFO) (logged st') = filter (\<lambda>e. fst e \<noteq> INFO) (logged st)"
  using assms
  by (simp add: finish_def comment_from_def Let_def logger_def)


text \<open>
  C6: in a run driven by a station log (and so without keyword overrides), take a file
  that reaches the resolver: lines 233 to 302 gave its output folder and object, and the
  station check of lines 313 to 318 went on. Where the resolver has no instrumentation
  for the file's window, the iteration logs the error 35 and ends in \<open>continue\<close>, and
  the loop goes on with the files that follow. Where the resolver gives instrumentation
  and reports a merge, the iteration logs the warning 36 and goes on with the same
  file: it reaches the write, which is the one more entry of \<open>written\<close>, and from the
  station check on the log gains, besides lines of level INFO, that warning alone.
\<close>

theorem resolver_outcomes:
  assumes sl: "truthy (sitelog cfg)" and nokw: "\<not> kw_truthy (modification_kw cfg)"
    and opened: "open_file cfg w nine out file st = (Go (mo, rf), st1)"
    and checked: "station_check cfg slo file rf
                    (st1\<lparr>modification_source := Some (sitelog_filename slo)\<rparr>) = (Go (), st2)"
  shows "(fst (rinex_metadata_lines slo (start_date rf) (end_date rf) (ignore cfg)) = None \<longrightarrow>
            process_file cfg w (Some slo) nine out file st
              = (Skip, logger ERROR
                   (''35 - No instrumentation corresponding to the data period on the sitelog : ''
                     @ file) st2)
          \<and> files_loop cfg w (Some slo) nine out (file # rest) st
              = files_loop cfg w (Some slo) nine out rest
                  (logger ERROR
                     (''35 - No instrumentation corresponding to the data period on the sitelog : ''
                       @ file) st2))
       \<and> (rinex_metadata_lines slo (start_date rf) (end_date rf) (ignore cfg) = (Some mv, True) \<longrightarrow>
            process_file cfg w (Some slo) nine out file st
              = finish cfg w mo (apply_metadata mv rf)
                  (logger WARNING
                     (''36 - Instrumentation cames from merged periods of sitelog with different firmwares, processing anyway - ''
                       @ file) st2)
          \<and> (\<exists>outputfile st' rf' c.
                process_file cfg w (Some slo) nine out file st = (Go outputfile, st')
              \<and> written st' = written st2 @ [(rf', mo, c)]
              \<and> filter (\<lambda>e. fst e \<noteq> INFO) (logged st')
                  = filter (\<lambda>e. fst e \<noteq> INFO) (logged st2)
                    @ [(WARNING,
                        ''36 - Instrumentation cames from merged periods of sitelog with different firmwares, processing anyway - ''
                          @ file)]))"
proof (intro conjI impI)
  assume none: "fst (rinex_metadata_lines slo (start_date rf) (end_date rf) (ignore cfg)) = None"
  then obtain ig where
    "rinex_metadata_lines slo (start_date rf) (end_date rf) (ignore cfg) = (None, ig)"
    by (cases "rinex_metadata_lines slo (start_date rf) (end_date rf) (ignore cfg)") auto
  then show skip: "process_file cfg w (Some slo) nine out file st
      = (Skip, logger ERROR
           (''35 - No instrumentation corresponding to the data period on the sitelog : ''
             @ file) st2)"
    using sl opened checked
    by (simp add: process_file_def sitelog_step_def resolve_period_def then_step_simps)
  show "files_loop cfg w (Some slo) nine out (file # rest) st
      = files_loop cfg w (Some slo) nine out rest
          (logger ERROR
             (''35 - No instrumentation corresponding to the data period on the sitelog : ''
               @ file) st2)"
    by (simp add: skip)
next
  assume merged: "rinex_metadata_lines slo (start_date rf) (end_date rf) (ignore cfg)
                    = (Some mv, True)"
  let ?st3 = "logger WARNING
     (''36 - Instrumentation cames from merged periods of sitelog with different firmwares, processing anyway - ''
       @ file) st2"
  show run: "process_file cfg w (Some slo) nine out file st
               = finish cfg w mo (apply_metadata mv rf) ?st3"
    using sl nokw opened checked merged
    by (simp add: process_file_def sitelog_step_def resolve_period_def then_step_simps)
  have "modification_source st2 = Some (sitelog_filename slo)"
    using station_check_Go [OF checked] by simp
  then have src: "modification_source ?st3 = Some (sitelog_filename slo)"
    by (simp add: logger_def)
  obtain outputfile st' rf' c where
    fin: "finish cfg w mo (apply_metadata mv rf) ?st3 = (Go outputfile, st')"
      "written st' = written ?st3 @ [(rf', mo, c)]"
      "filter (\<lambda>e. fst e \<noteq> INFO) (logged st') = filter (\<lambda>e. fst e \<noteq> INFO) (logged ?st3)"
    using finish_bound [OF src, of cfg w mo "apply_metadata mv rf"] by blast
  have "written st' = written st2 @ [(rf', mo, c)]"
    using fin(2) by (simp add: logger_def)
  moreover have "filter (\<lambda>e. fst e \<noteq> INFO) (logged st')
                  = filter (\<lambda>e. fst e \<noteq> INFO) (logged st2)
                    @ [(WARNING,
                        ''36 - Instrumentation cames from merged periods of sitelog with different firmwares, processing anyway - ''
                          @ file)]"
    using fin(3) by (simp add: logger_def)
  ultimately show "\<exists>outputfile st' rf' c.
                process_file cfg w (Some slo) nine out file st = (Go outputfile, st')
              \<and> written st' = written st2 @ [(rf', mo, c)]
              \<and> filter (\<lambda>e. fst e \<noteq> INFO) (logged st')
                  = filter (\<lambda>e. fst e \<noteq> INFO) (logged st2)
                    @ [(WARNING,
                        ''36 - Instrumentation cames from merged periods of sitelog with different firmwares, processing anyway - ''
                          @ file)]"
    using run fin(1) by auto
qed


theorem resolver_outcomes_witness:
  "fst (process_file (sample_config\<lparr>sitelog := Some ''/logs/abcd.log''\<rparr>) sample_world
          (Some (sample_sitelog ''/logs/abcd.log'')) Map.empty ''/data/out''
          ''/data/in/abcd0740.19d.Z'' (initial_state sample_config)) = Skip
   \<and> (\<exists>outputfile st'.
         process_file (sample_config\<lparr>sitelog := Some ''/logs/abcd.log'', ignore := True\<rparr>)
           sample_world (Some (sample_sitelog ''/logs/abcd.log'')) Map.empty ''/data/out''
           ''/data/in/abcd0740.21d.Z'' (initial_state sample_config) = (Go outputfile, st')
       \<and> length (written st') = 1)"
proof -
  let ?c1 = "sample_config\<lparr>sitelog := Some ''/logs/abcd.log''\<rparr>"
  let ?c2 = "sample_config\<lparr>sitelog := Some ''/logs/abcd.log'', ignore := True\<rparr>"
  let ?slo = "sample_sitelog ''/logs/abcd.log''"
  let ?f1 = "''/data/in/abcd0740.19d.Z''"
  let ?f2 = "''/data/in/abcd0740.21d.Z''"
  let ?s0 = "initial_state sample_config"
  have sl: "truthy (sitelog ?c1)" "truthy (sitelog ?c2)"
    by (simp_all add: truthy_def)
  have nokw: "\<not> kw_truthy (modification_kw ?c1)" "\<not> kw_truthy (modification_kw ?c2)"
    by (simp_all add: kw_truthy_def sample_config_def)
  have o1: "open_file ?c1 sample_world Map.empty ''/data/out'' ?f1 ?s0
              = (Go (''/data/out'', sample_load ?f1), logger INFO (''# File : '' @ ?f1) ?s0)"
    by (simp add: open_file_def locate_def load_def rename_def sample_world_def
          sample_config_def sample_dirname_def sample_load_def sample_rinexfile_def
          marker_filename_def truthy_def then_step_simps Let_def)
  have o2: "open_file ?c2 sample_world Map.empty ''/data/out'' ?f2 ?s0
              = (Go (''/data/out'', sample_load ?f2), logger INFO (''# File : '' @ ?f2) ?s0)"
    by (simp add: open_file_def locate_def load_def rename_def sample_world_def
          sample_config_def sample_dirname_def sample_load_def sample_rinexfile_def
          marker_filename_def truthy_def then_step_simps Let_def)
  have c1: "station_check ?c1 ?slo ?f1 (sample_load ?f1)
              ((logger INFO (''# File : '' @ ?f1) ?s0)\<lparr>modification_source := Some (sitelog_filename ?slo)\<rparr>)
            = (Go (), (logger INFO (''# File : '' @ ?f1) ?s0)\<lparr>modification_source := Some (sitelog_filename ?slo)\<rparr>)"
    by (simp add: station_check_def sample_sitelog_def sample_load_def sample_rinexfile_def
          lower_def lower_char_def Let_def)
  have c2: "station_check ?c2 ?slo ?f2 (sample_load ?f2)
              ((logger INFO (''# File : '' @ ?f2) ?s0)\<lparr>modification_source := Some (sitelog_filename ?slo)\<rparr>)
            = (Go (), (logger INFO (''# File : '' @ ?f2) ?s0)\<lparr>modification_source := Some (sitelog_filename ?slo)\<rparr>)"
    by (simp add: station_check_def sample_sitelog_def sample_load_def sample_rinexfile_def
          lower_def lower_char_def Let_def)
  have none: "fst (rinex_metadata_lines ?slo (start_date (sample_load ?f1))
                     (end_date (sample_load ?f1)) (ignore ?c1)) = None"
    by (simp add: sample_sitelog_def sample_load_def sample_rinexfile_def sample_date_def)
  have merged: "rinex_metadata_lines ?slo (start_date (sample_load ?f2))
                  (end_date (sample_load ?f2)) (ignore ?c2) = (Some sample_metadata, True)"
    by (simp add: sample_sitelog_def sample_load_def sample_rinexfile_def sample_date_def)
  have a: "fst (process_file ?c1 sample_world (Some ?slo) Map.empty ''/data/out'' ?f1 ?s0) = Skip"
    using resolver_outcomes [OF sl(1) nokw(1) o1 c1, of "[]" sample_metadata] none by simp
  have b: "\<exists>outputfile st'.
         process_file ?c2 sample_world (Some ?slo) Map.empty ''/data/out'' ?f2 ?s0 = (Go outputfile, st')
       \<and> length (written st') = 1"
  proof -
    obtain outputfile st' rf' c where
      "process_file ?c2 sample_world (Some ?slo) Map.empty ''/data/out'' ?f2 ?s0 = (Go outputfile, st')"
      "written st' = written ((logger INFO (''# File : '' @ ?f2) ?s0)\<lparr>modification_source := Some (sitelog_filename ?slo)\<rparr>) @ [(rf', ''/data/out'', c)]"
      using resolver_outcomes [OF sl(2) nokw(2) o2 c2, of "[]" sample_metadata] merged by blast
    then show ?thesis
      by (simp add: logger_def initial_state_def)
  qed
  show ?thesis using a b by blast
qed

subsection \<open>Whole runs in the concrete world\<close>

lemmas run_defs =
  rinexmod_def prepare_def keyword_stage_def run_files_def read_rinexlist_def
  open_log_def warn_unused_def initial_state_def print_def logger_def ensure_dir_def
  process_file_def open_file_def locate_def load_def rename_def marker_filename_def
  sitelog_step_def station_check_def resolve_period_def apply_metadata_def kw_step_def
  finish_def comment_from_def add_comment_def call_on_def then_step_simps
  truthy_def kw_truthy_def acceptable_keywords_def Let_def

lemmas sample_defs =
  sample_config_def sample_world_def sample_load_def sample_rinexfile_def sample_sitelog_def
  sample_dirname_def sample_basename_def sample_date_def sample_metadata_def

text \<open>
  C1: a run driven by the station log of ABCD on a file whose header says EFGH. Without
  \<open>force\<close> the run logs the error 33 and then goes on with the file: the setters are
  called (the first of them \<open>set_marker\<close> with the log's station) and the file is
  written. With \<open>force\<close> the run logs the warning 34, whose text says that the file is
  processed anyway, and skips the file: nothing is written. The \<open>continue\<close> of line 318
  is in the branch of the warning.
\<close>

theorem station_mismatch_branches:
  "fst (rinexmod (sample_config\<lparr>rinexlist := ListArg [''/data/in/efgh0740.21d.Z''],
                   sitelog := Some ''/logs/abcd.log'', force := False\<rparr>) sample_world) = Done
   \<and> logged (snd (rinexmod (sample_config\<lparr>rinexlist := ListArg [''/data/in/efgh0740.21d.Z''],
                   sitelog := Some ''/logs/abcd.log'', force := False\<rparr>) sample_world))
       = [(INFO, ''# File : /data/in/efgh0740.21d.Z''),
          (ERROR, ''33 - File's station does not correspond to provided sitelog - use -f option to force /data/in/efgh0740.21d.Z'')]
   \<and> map (\<lambda>(rf, folder, c). (filename rf, station rf, hd (calls rf), folder))
         (written (snd (rinexmod (sample_config\<lparr>rinexlist := ListArg [''/data/in/efgh0740.21d.Z''],
                   sitelog := Some ''/logs/abcd.log'', force := False\<rparr>) sample_world)))
       = [(''efgh0740.21d.Z'', ''EFGH'', Call ''set_marker'' [Some ''ABCD''], ''/data/out'')]
   \<and> fst (rinexmod (sample_config\<lparr>rinexlist := ListArg [''/data/in/efgh0740.21d.Z''],
                   sitelog := Some ''/logs/abcd.log'', force := True\<rparr>) sample_world) = Done
   \<and> logged (snd (rinexmod (sample_config\<lparr>rinexlist := ListArg [''/data/in/efgh0740.21d.Z''],
                   sitelog := Some ''/logs/abcd.log'', force := True\<rparr>) sample_world))
       = [(INFO, ''# File : /data/in/efgh0740.21d.Z''),
          (WARNING, ''34 - File's station does not correspond to provided sitelog, processing anyway - /data/in/efgh0740.21d.Z'')]
   \<and> written (snd (rinexmod (sample_config\<lparr>rinexlist := ListArg [''/data/in/efgh0740.21d.Z''],
                   sitelog := Some ''/logs/abcd.log'', force := True\<rparr>) sample_world)) = []"
  by (simp add: run_defs sample_defs lower_def lower_char_def)

text \<open>
  C2: a run on two files, the first of which loads with status 2. Formatting the message
  of line 260 raises \<open>NameError\<close>, no error is logged for the file, and the exception
  ends the run: the second file, which is in order, never gets its line in the log and
  is not written.
\<close>

theorem status_two_raises:
  "rinexmod (sample_config\<lparr>rinexlist := ListArg [''/data/in/notes.21n.Z'', ''/data/in/abcd0740.21d.Z''],
               modification_kw := Some [(''agency'', ''AGN'')]\<rparr>) sample_world
     = (Raised (NameError ''err_msg''),
        \<lparr>printed = [], logged = [(INFO, ''# File : /data/in/notes.21n.Z'')],
         ensured_dirs = [''/data/out''],
         logfile = Some ''/data/out/20210315134507_rinexmod.log'', written = [],
         compression_var = None, modification_source = None\<rparr>)"
  by (simp add: run_defs sample_defs directive_def two_digits_def four_digits_def
        three_digits_def digit_char_def)

text \<open>
  C3: a run without an output compression on a \<open>gz\<close> file followed by a \<open>Z\<close> file.
  Line 379 assigns the parameter itself, so the second iteration finds it set: both files
  are written with \<open>gz\<close>, the compression of the first.
\<close>

theorem compression_carried_over:
  "compression (sample_config\<lparr>rinexlist := ListArg [''/data/in/abcd0750.21d.gz'', ''/data/in/abcd0740.21d.Z''],
               modification_kw := Some [(''agency'', ''AGN'')]\<rparr>) = None
   \<and> fst (rinexmod (sample_config\<lparr>rinexlist := ListArg [''/data/in/abcd0750.21d.gz'', ''/data/in/abcd0740.21d.Z''],
               modification_kw := Some [(''agency'', ''AGN'')]\<rparr>) sample_world) = Done
   \<and> map (\<lambda>(rf, folder, c). (filename rf, file_compression rf, c))
         (written (snd (rinexmod (sample_config\<lparr>rinexlist := ListArg [''/data/in/abcd0750.21d.gz'', ''/data/in/abcd0740.21d.Z''],
               modification_kw := Some [(''agency'', ''AGN'')]\<rparr>) sample_world)))
       = [(''abcd0750.21d.gz'', Some ''gz'', Some ''gz''),
          (''abcd0740.21d.Z'', Some ''Z'', Some ''gz'')]"
  by (simp add: run_defs sample_defs)

text \<open>
  C4: a run with a marker and neither a station log nor keyword overrides. Line 375 reads
  \<open>modification_source\<close>, which only the lines 306 and 344 bind: the read raises
  \<open>UnboundLocalError\<close> on the first file that gets there, before the write.
\<close>

theorem marker_only_raises:
  "fst (rinexmod (sample_config\<lparr>rinexlist := ListArg [''/data/in/abcd0740.21d.Z''],
               marker := Some ''AGAL''\<rparr>) sample_world)
     = Raised (UnboundLocalError ''modification_source'')
   \<and> written (snd (rinexmod (sample_config\<lparr>rinexlist := ListArg [''/data/in/abcd0740.21d.Z''],
               marker := Some ''AGAL''\<rparr>) sample_world)) = []
   \<and> logged (snd (rinexmod (sample_config\<lparr>rinexlist := ListArg [''/data/in/abcd0740.21d.Z''],
               marker := Some ''AGAL''\<rparr>) sample_world))
       = [(INFO, ''# File : /data/in/abcd0740.21d.Z'')]"
  by (simp add: run_defs sample_defs)

end
